theory Spec2Isabelle
  imports Main "HOL-Library.Sublist"
begin

section \<open>review8.py: automatic review of PEP-8 only changes\<close>

text \<open>
  The script is written for Python 2: the output of a child process is a byte string
  (\<open>str\<close>), on which \<open>strip\<close>, \<open>split\<close> and indexing work as they do below.
  Strings are \<open>string\<close>; Python integers are \<open>int\<close>.
\<close>

subsection \<open>Exceptions\<close>

datatype error =
    Exception string   \<comment> \<open>\<open>Exception(message)\<close>, as raised by \<open>execute\<close>\<close>
  | IndexError         \<comment> \<open>string index out of range\<close>
  | ValueError string  \<comment> \<open>\<open>int()\<close> on a string that is no number\<close>
  | KeyError string    \<comment> \<open>a missing key in \<open>command % data\<close>\<close>
  | TypeError
  | OSError string     \<comment> \<open>\<open>os.chdir\<close>, \<open>tempfile.mkdtemp\<close>, \<open>shutil.rmtree\<close>\<close>
  | IOError string     \<comment> \<open>\<open>shutil.copy2\<close>\<close>
  | ShutilError string \<comment> \<open>\<open>shutil.Error\<close>: source and destination are the same file\<close>
  | Raised string      \<comment> \<open>any other exception, raised by the body of a scope\<close>

subsection \<open>The state of the machine\<close>

type_synonym path = string

datatype node = Dir | File string

text \<open>
  What the script shares with the child processes it spawns: the file system, and the
  revision the repository is checked out at (kept by git under \<open>.git\<close>).
\<close>

record disk =
  files :: "path \<rightharpoonup> node"
  revision :: string

datatype message =
    WarnDeleted "string list"
  | WarnCreated "string list"
  | WarnBytecode string string string string
  | OkNoBytecodeDiff string
  | Flake8Errors int string
  | OkLess
  | ErrorMoreOrEqual

text \<open>
  The state of the running script: its working directory, the next candidate of
  \<open>tempfile.mkdtemp\<close>, the commands it has spawned so far (oldest first; a history
  that only \<open>execute\<close> extends), the lines it has printed, and the disk.
\<close>

record world =
  cwd :: path
  tmp_seq :: nat
  spawned :: "string list"
  printed :: "message list"
  disk :: disk

type_synonym 'a prog = "world \<Rightarrow> (error + 'a) \<times> world"

definition return :: "'a \<Rightarrow> 'a prog" where
  "return x w = (Inr x, w)"

definition raise :: "error \<Rightarrow> 'a prog" where
  "raise e w = (Inl e, w)"

definition bind :: "'a prog \<Rightarrow> ('a \<Rightarrow> 'b prog) \<Rightarrow> 'b prog" where
  "bind m f w = (case m w of (Inl e, w') \<Rightarrow> (Inl e, w') | (Inr x, w') \<Rightarrow> f x w')"

text \<open>
  \<open>try: m finally: h\<close>. The handler always runs, on the state the block left. An
  exception of the handler replaces the outcome of the block; otherwise the outcome of
  the block (its value or its exception) stands.
\<close>

definition try_finally :: "'a prog \<Rightarrow> 'b prog \<Rightarrow> 'a prog" where
  "try_finally m h w =
     (case m w of (r, w1) \<Rightarrow>
        (case h w1 of (Inl e, w2) \<Rightarrow> (Inl e, w2) | (Inr _, w2) \<Rightarrow> (r, w2)))"

definition print :: "message \<Rightarrow> unit prog" where
  "print m w = (Inr (), w\<lparr>printed := printed w @ [m]\<rparr>)"

subsection \<open>The environment: the shell and the \<open>%\<close> operator\<close>

datatype pyval = PStr string | PInt int

text \<open>
  \<open>shell\<close> is \<open>subprocess.Popen(command, shell=True, stdout=PIPE)\<close> followed by
  \<open>wait\<close> and \<open>stdout.read\<close>: from the command, the working directory and the disk
  to the exit status, the captured output and the disk the child leaves. A child cannot
  change the working directory of the script. \<open>percent\<close> is Python's \<open>command % data\<close>
  on a string and a dictionary, which may raise.
\<close>

record env =
  shell :: "string \<Rightarrow> path \<Rightarrow> disk \<Rightarrow> int \<times> string \<times> disk"
  percent :: "string \<Rightarrow> (string \<times> pyval) list \<Rightarrow> error + string"

subsection \<open>\<open>execute\<close>\<close>

definition interpolate :: "env \<Rightarrow> string \<Rightarrow> (string \<times> pyval) list \<Rightarrow> error + string" where
  \<comment> \<open>\<open>if data: command = command % data\<close>; an empty dictionary is false\<close>
  "interpolate E command data = (if data \<noteq> [] then percent E command data else Inr command)"

definition error_text :: "string \<Rightarrow> string" where
  \<comment> \<open>\<open>'Error while running command "{0}"'.format(command)\<close>\<close>
  "error_text command = ''Error while running command '' @ [CHR 0x22] @ command @ [CHR 0x22]"

definition execute :: "env \<Rightarrow> string \<Rightarrow> (string \<times> pyval) list \<Rightarrow> string prog" where
  "execute E command data w =
     (case interpolate E command data of
        Inl e \<Rightarrow> (Inl e, w)
      | Inr cmd \<Rightarrow>
          (case shell E cmd (cwd w) (disk w) of
             (result, out, d) \<Rightarrow>
               (if result \<noteq> 0
                then (Inl (Exception (error_text cmd)), w\<lparr>spawned := spawned w @ [cmd], disk := d\<rparr>)
                else (Inr out, w\<lparr>spawned := spawned w @ [cmd], disk := d\<rparr>))))"

subsection \<open>Strings and paths\<close>

definition is_space :: "char \<Rightarrow> bool" where
  \<comment> \<open>the characters \<open>str.strip()\<close> removes: space, tab, newline, vertical tab, form feed, return\<close>
  "is_space c = (c = CHR '' '' \<or> c = CHR 0x09 \<or> c = CHR 0x0A \<or> c = CHR 0x0B \<or> c = CHR 0x0C \<or> c = CHR 0x0D)"

definition strip :: "string \<Rightarrow> string" where
  "strip s = rev (dropWhile is_space (rev (dropWhile is_space s)))"

fun split_nl :: "string \<Rightarrow> string list" where
  \<comment> \<open>\<open>s.split('\n')\<close>: one more piece than there are newlines, so never the empty list\<close>
  "split_nl [] = [[]]"
| "split_nl (c # cs) =
     (if c = CHR 0x0A then [] # split_nl cs
      else (case split_nl cs of [] \<Rightarrow> [[c]] | l # ls \<Rightarrow> (c # l) # ls))"

definition is_digit :: "char \<Rightarrow> bool" where
  "is_digit c = (48 \<le> (of_char c :: nat) \<and> (of_char c :: nat) \<le> 57)"

definition digit_value :: "char \<Rightarrow> nat" where
  "digit_value c = (of_char c :: nat) - 48"

definition digits_value :: "string \<Rightarrow> nat" where
  "digits_value ds = foldl (\<lambda>a c. 10 * a + digit_value c) 0 ds"

definition all_digits :: "string \<Rightarrow> bool" where
  "all_digits ds = (ds \<noteq> [] \<and> list_all is_digit ds)"

definition py_int :: "string \<Rightarrow> error + int" where
  \<comment> \<open>\<open>int(s)\<close> in base 10: blanks around, an optional sign, then digits only\<close>
  "py_int s =
     (let t = strip s in
      case t of
        [] \<Rightarrow> Inl (ValueError s)
      | c # ds \<Rightarrow>
          if c = CHR ''-'' then (if all_digits ds then Inr (- int (digits_value ds)) else Inl (ValueError s))
          else if c = CHR ''+'' then (if all_digits ds then Inr (int (digits_value ds)) else Inl (ValueError s))
          else if all_digits t then Inr (int (digits_value t))
          else Inl (ValueError s))"

definition path_join :: "path \<Rightarrow> path \<Rightarrow> path" where
  \<comment> \<open>\<open>os.path.join(a, b)\<close> of posixpath\<close>
  "path_join a b =
     (if b \<noteq> [] \<and> hd b = CHR ''/'' then b
      else if a = [] \<or> last a = CHR ''/'' then a @ b
      else a @ ''/'' @ b)"

definition basename :: "path \<Rightarrow> path" where
  \<comment> \<open>\<open>os.path.basename(p)\<close>: what follows the last slash\<close>
  "basename p = rev (takeWhile (\<lambda>c. c \<noteq> CHR ''/'') (rev p))"

definition under :: "path \<Rightarrow> path \<Rightarrow> bool" where
  \<comment> \<open>\<open>p\<close> lies below the directory \<open>d\<close>\<close>
  "under d p = (prefix (d @ ''/'') p)"

subsection \<open>The operating system calls of the script\<close>

text \<open>
  Paths are keys of the file system as they are written: no \<open>.\<close>, \<open>..\<close> or symbolic
  links are resolved. A relative path is taken from the working directory.
\<close>

definition os_chdir :: "path \<Rightarrow> unit prog" where
  "os_chdir p w =
     (let q = path_join (cwd w) p in
      if files (disk w) q = Some Dir then (Inr (), w\<lparr>cwd := q\<rparr>) else (Inl (OSError q), w))"

definition tempdir :: path where
  "tempdir = ''/tmp''"

definition TMP_MAX :: nat where
  "TMP_MAX = 10000"

fun show_nat :: "nat \<Rightarrow> string" where
  "show_nat n =
     (if n < 10 then [char_of (48 + n)] else show_nat (n div 10) @ [char_of (48 + n mod 10)])"

declare show_nat.simps [simp del]

definition tmp_name :: "nat \<Rightarrow> path" where
  \<comment> \<open>the \<open>n\<close>-th candidate name; the library draws them at random\<close>
  "tmp_name n = path_join tempdir (''tmp'' @ show_nat n)"

fun mkdtemp_loop :: "nat \<Rightarrow> path prog" where
  \<comment> \<open>\<open>tempfile.mkdtemp\<close>: the next candidate that does not exist yet, in at most \<open>TMP_MAX\<close> tries\<close>
  "mkdtemp_loop 0 w = (Inl (IOError ''No usable temporary directory name found''), w)"
| "mkdtemp_loop (Suc k) w =
     (let file = tmp_name (tmp_seq w); w1 = w\<lparr>tmp_seq := Suc (tmp_seq w)\<rparr> in
      case files (disk w) file of
        Some _ \<Rightarrow> mkdtemp_loop k w1
      | None \<Rightarrow>
          if files (disk w) tempdir = Some Dir
          then (Inr file, w1\<lparr>disk := (disk w)\<lparr>files := (files (disk w))(file \<mapsto> Dir)\<rparr>\<rparr>)
          else (Inl (OSError file), w1))"

definition mkdtemp :: "path prog" where
  "mkdtemp = mkdtemp_loop TMP_MAX"

definition rmtree :: "path \<Rightarrow> unit prog" where
  \<comment> \<open>\<open>shutil.rmtree(path)\<close>: raises unless \<open>path\<close> is a directory\<close>
  "rmtree p w =
     (let q = path_join (cwd w) p in
      if files (disk w) q = Some Dir
      then (Inr (), w\<lparr>disk := (disk w)\<lparr>files := (\<lambda>x. if x = q \<or> under q x then None else files (disk w) x)\<rparr>\<rparr>)
      else (Inl (OSError q), w))"

definition dirname :: "path \<Rightarrow> path" where
  "dirname p = rev (drop 1 (dropWhile (\<lambda>c. c \<noteq> CHR ''/'') (rev p)))"

definition copy2 :: "path \<Rightarrow> path \<Rightarrow> unit prog" where
  \<comment> \<open>\<open>shutil.copy2(src, dst)\<close>: into \<open>dst\<close> when it is a directory; the same file is refused;
      the source must be a file and the destination's directory must exist\<close>
  "copy2 src dst w =
     (let s = path_join (cwd w) src;
          d0 = path_join (cwd w) dst;
          d = (if files (disk w) d0 = Some Dir then path_join d0 (basename s) else d0)
      in if s = d \<and> files (disk w) s \<noteq> None then (Inl (ShutilError s), w)
         else (case files (disk w) s of
                 Some (File c) \<Rightarrow>
                   if files (disk w) (dirname d) = Some Dir \<and> files (disk w) d \<noteq> Some Dir
                   then (Inr (), w\<lparr>disk := (disk w)\<lparr>files := (files (disk w))(d \<mapsto> File c)\<rparr>\<rparr>)
                   else (Inl (IOError d), w)
               | _ \<Rightarrow> (Inl (IOError s), w)))"

subsection \<open>The scopes\<close>

definition temporary_directory :: "(path \<Rightarrow> 'a prog) \<Rightarrow> 'a prog" where
  \<comment> \<open>\<open>with temporary_directory() as path: body\<close>: \<open>__enter__\<close>, the body, then \<open>__exit__\<close>,
      which returns \<open>None\<close> and so lets an exception of the body through\<close>
  "temporary_directory body = bind mkdtemp (\<lambda>path. try_finally (body path) (rmtree path))"

definition chdir :: "path \<Rightarrow> 'a prog \<Rightarrow> 'a prog" where
  "chdir path body w =
     (let backup = cwd w in
      try_finally (bind (os_chdir path) (\<lambda>_. body)) (os_chdir backup) w)"

definition git_branch :: "env \<Rightarrow> path \<Rightarrow> string prog" where
  "git_branch E repository_dir =
     chdir repository_dir
       (bind (execute E ''git rev-parse --abbrev-ref HEAD'' []) (\<lambda>out. return (strip out)))"

definition git_checkout :: "env \<Rightarrow> path \<Rightarrow> string \<Rightarrow> 'a prog \<Rightarrow> 'a prog" where
  "git_checkout E repository_dir commit body =
     chdir repository_dir
       (bind (git_branch E repository_dir) (\<lambda>backup.
          if backup \<noteq> commit
          then try_finally
                 (bind (execute E (''git checkout '' @ commit) []) (\<lambda>_. body))
                 (execute E (''git checkout '' @ backup) [])
          else body))"

subsection \<open>The checks\<close>

definition flake8_count :: "env \<Rightarrow> path \<Rightarrow> int prog" where
  "flake8_count E path =
     bind (execute E (''flake8 '' @ path @ '' | wc -l'') [])
       (\<lambda>out. case py_int (strip out) of Inl e \<Rightarrow> raise e | Inr n \<Rightarrow> return n)"

text \<open>
  \<open>git_status_files\<close> is a generator. Its consumer is a parameter here: \<open>consume\<close> is
  run on each filename the generator yields, between two steps of its loop, and threads
  an accumulator. The loop ends in one of three ways: the generator raises (\<open>Inl\<close>), the
  consumer raises while the generator is suspended at its \<open>yield\<close> (\<open>Inr (Inl e)\<close>), or
  the lines are exhausted (\<open>Inr (Inr acc)\<close>).
\<close>

fun status_loop ::
  "string list \<Rightarrow> string \<Rightarrow> (string \<Rightarrow> 'a \<Rightarrow> 'a prog) \<Rightarrow> 'a \<Rightarrow> (error + 'a) prog" where
  "status_loop [] status consume acc = return (Inr acc)"
| "status_loop (line # lines) status consume acc =
     (case line of
        [] \<Rightarrow> raise IndexError
      | file_status # rest \<Rightarrow>
          (let filename = strip rest in
           if [file_status] = status
           then (\<lambda>w. case consume filename acc w of
                        (Inl e, w1) \<Rightarrow> (Inr (Inl e), w1)
                      | (Inr acc1, w1) \<Rightarrow> status_loop lines status consume acc1 w1)
           else status_loop lines status consume acc))"

text \<open>
  The \<open>chdir\<close> scope as it is written inside a generator: its \<open>finally\<close> runs when the
  generator raises or is exhausted. When the consumer raises, the generator stays
  suspended inside the scope, and the working directory is not restored before the
  exception of the consumer propagates.
\<close>

definition chdir_gen :: "path \<Rightarrow> (error + 'a) prog \<Rightarrow> 'a prog" where
  "chdir_gen path body w =
     (let backup = cwd w in
      case bind (os_chdir path) (\<lambda>_. body) w of
        (Inr (Inl e), w1) \<Rightarrow> (Inl e, w1)
      | (Inr (Inr x), w1) \<Rightarrow>
          (case os_chdir backup w1 of (Inl e2, w2) \<Rightarrow> (Inl e2, w2) | (Inr _, w2) \<Rightarrow> (Inr x, w2))
      | (Inl e, w1) \<Rightarrow>
          (case os_chdir backup w1 of (Inl e2, w2) \<Rightarrow> (Inl e2, w2) | (Inr _, w2) \<Rightarrow> (Inl e, w2)))"

definition git_status_files ::
  "env \<Rightarrow> path \<Rightarrow> string \<Rightarrow> string \<Rightarrow> string \<Rightarrow> (string \<Rightarrow> 'a \<Rightarrow> 'a prog) \<Rightarrow> 'a \<Rightarrow> 'a prog" where
  "git_status_files E repository_dir start_commit end_commit status consume acc =
     chdir_gen repository_dir
       (bind (execute E (''git diff --name-status '' @ start_commit @ '' '' @ end_commit) [])
          (\<lambda>output. status_loop (split_nl (strip output)) status consume acc))"

definition collect :: "string \<Rightarrow> string list \<Rightarrow> string list prog" where
  \<comment> \<open>the consumer that is \<open>list(...)\<close>\<close>
  "collect x acc = return (acc @ [x])"

definition git_deleted_files :: "env \<Rightarrow> path \<Rightarrow> string \<Rightarrow> string \<Rightarrow> string list prog" where
  "git_deleted_files E repository_dir start_commit end_commit =
     git_status_files E repository_dir start_commit end_commit ''D'' collect []"

definition git_modified_files :: "env \<Rightarrow> path \<Rightarrow> string \<Rightarrow> string \<Rightarrow> string list prog" where
  "git_modified_files E repository_dir start_commit end_commit =
     git_status_files E repository_dir start_commit end_commit ''M'' collect []"

definition git_created_files :: "env \<Rightarrow> path \<Rightarrow> string \<Rightarrow> string \<Rightarrow> string list prog" where
  "git_created_files E repository_dir start_commit end_commit =
     git_status_files E repository_dir start_commit end_commit ''A'' collect []"

definition bytecode_diff :: "env \<Rightarrow> string \<Rightarrow> path \<Rightarrow> string \<Rightarrow> string \<Rightarrow> string prog" where
  "bytecode_diff E filename repository_dir start_commit end_commit =
     git_checkout E repository_dir end_commit
       (temporary_directory (\<lambda>temp_dir.
          let start_file = path_join temp_dir (basename filename);
              end_file = path_join repository_dir filename
          in bind (git_checkout E repository_dir start_commit (copy2 end_file start_file))
               (\<lambda>_. execute E (''pydiff '' @ start_file @ '' '' @ end_file) [])))"

subsection \<open>The review\<close>

definition final_phase :: "int \<Rightarrow> int \<Rightarrow> unit prog" where
  "final_phase start_pep8_report end_pep8_report =
     (let diff = end_pep8_report - start_pep8_report in
      if diff < 0 then print OkLess else print ErrorMoreOrEqual)"

definition review_file :: "env \<Rightarrow> path \<Rightarrow> string \<Rightarrow> string \<Rightarrow> string \<Rightarrow> unit \<Rightarrow> unit prog" where
  \<comment> \<open>the body of \<open>for filename in modified\<close>\<close>
  "review_file E repository_dir start_commit end_commit filename u =
     bind (bytecode_diff E filename repository_dir start_commit end_commit)
       (\<lambda>diff. if diff \<noteq> []
               then print (WarnBytecode filename start_commit end_commit diff)
               else print (OkNoBytecodeDiff filename))"

definition count_in :: "env \<Rightarrow> path \<Rightarrow> string \<Rightarrow> int prog" where
  \<comment> \<open>\<open>with git_checkout(...): report = flake8_count(...); print(...)\<close>\<close>
  "count_in E repository_dir commit =
     git_checkout E repository_dir commit
       (bind (flake8_count E repository_dir)
          (\<lambda>report. bind (print (Flake8Errors report commit)) (\<lambda>_. return report)))"

definition git_review8 :: "env \<Rightarrow> path \<Rightarrow> string \<Rightarrow> string \<Rightarrow> unit prog" where
  "git_review8 E repository_dir start_commit end_commit =
     bind (git_deleted_files E repository_dir start_commit end_commit) (\<lambda>deleted.
     bind (if deleted \<noteq> [] then print (WarnDeleted deleted) else return ()) (\<lambda>_.
     bind (git_created_files E repository_dir start_commit end_commit) (\<lambda>created.
     bind (if created \<noteq> [] then print (WarnCreated created) else return ()) (\<lambda>_.
     bind (git_status_files E repository_dir start_commit end_commit ''M''
             (review_file E repository_dir start_commit end_commit) ()) (\<lambda>_.
     bind (count_in E repository_dir start_commit) (\<lambda>start_pep8_report.
     bind (count_in E repository_dir end_commit) (\<lambda>end_pep8_report.
     final_phase start_pep8_report end_pep8_report)))))))"

subsection \<open>Programs of the environment\<close>

text \<open>
  A command of a shell pipeline reads its input, the working directory and the disk.
  The shell gives a pipeline the exit status of its last command; \<open>wc -l\<close> prints the
  number of newline characters of its input and succeeds.
\<close>

type_synonym tool = "string \<Rightarrow> path \<Rightarrow> disk \<Rightarrow> int \<times> string \<times> disk"

definition pipeline :: "tool \<Rightarrow> tool \<Rightarrow> tool" where
  "pipeline p q inp c d = (case p inp c d of (status, out, d1) \<Rightarrow> q out c d1)"

definition wc_l :: tool where
  "wc_l inp c d = (0, show_nat (count_list inp (CHR 0x0A)) @ [CHR 0x0A], d)"

subsection \<open>What the script expects of git and pydiff\<close>

definition inside :: "path \<Rightarrow> path \<Rightarrow> bool" where
  "inside d p = (p = d \<or> under d p)"


definition absolute :: "path \<Rightarrow> bool" where
  "absolute p = (p \<noteq> [] \<and> hd p = CHR ''/'')"






subsection \<open>The steps of a checkout scope\<close>






definition in_scope :: "env \<Rightarrow> path \<Rightarrow> string \<Rightarrow> world \<Rightarrow> world \<Rightarrow> bool" where
  \<comment> \<open>\<open>v\<close> is the state in which the body of a \<open>git_checkout\<close> scope for \<open>commit\<close>, opened
      in \<open>w\<close>, starts: the branch query answered \<open>commit\<close>, or the checkout of \<open>commit\<close>
      succeeded\<close>
  "in_scope E repository_dir commit w v =
     (\<exists>wa backup wb.
        os_chdir repository_dir w = (Inr (), wa)
      \<and> git_branch E repository_dir wa = (Inr backup, wb)
      \<and> (if backup = commit then v = wb
           else (\<exists>out. execute E (''git checkout '' @ commit) [] wb = (Inr out, v))))"

definition counted :: "env \<Rightarrow> path \<Rightarrow> string \<Rightarrow> world \<Rightarrow> int \<Rightarrow> bool" where
  \<comment> \<open>\<open>n\<close> is what \<open>flake8_count\<close> returns in a scope for \<open>commit\<close> opened in \<open>w\<close>\<close>
  "counted E repository_dir commit w n =
     (\<exists>v v'. in_scope E repository_dir commit w v \<and> flake8_count E repository_dir v = (Inr n, v'))"


subsection \<open>A small environment to run the script in\<close>

text \<open>
  A repository \<open>/repo\<close> with the branches \<open>master\<close>, \<open>docs\<close> and \<open>pep8\<close> and the one
  tracked file \<open>a.py\<close>, the same on \<open>master\<close> and \<open>docs\<close>. The branch query fails when
  the name of the revision has blanks around it. The style checker finds three violations
  on \<open>master\<close> and one elsewhere, and fails whenever it finds any. Compiling forgets the
  blanks.
\<close>

definition demo_blob :: "string \<Rightarrow> string \<rightharpoonup> string" where
  "demo_blob r f =
     (if f \<noteq> ''a.py'' then None
      else if r = ''master'' then Some ''x=1''
      else if r = ''docs'' then Some ''x=1''
      else if r = ''pep8'' then Some ''x = 1''
      else None)"

definition demo_compiled :: "string \<Rightarrow> string" where
  "demo_compiled x = filter (\<lambda>c. c \<noteq> CHR '' '') x"

definition demo_flake8 :: tool where
  "demo_flake8 inp c d =
     (if revision d = ''master''
      then (1, concat (replicate 3 (''a.py:1:2: E225'' @ [CHR 0x0A])), d)
      else (1, ''a.py:1:80: E501'' @ [CHR 0x0A], d))"

definition word1 :: "string \<Rightarrow> string" where
  "word1 s = takeWhile (\<lambda>c. c \<noteq> CHR '' '') s"

definition word2 :: "string \<Rightarrow> string" where
  "word2 s = drop 1 (dropWhile (\<lambda>c. c \<noteq> CHR '' '') s)"

definition demo_shell :: "string \<Rightarrow> path \<Rightarrow> disk \<Rightarrow> int \<times> string \<times> disk" where
  "demo_shell cmd c d =
     (if cmd = ''git rev-parse --abbrev-ref HEAD'' then
        (if strip (revision d) = revision d then (0, revision d @ [CHR 0x0A], d) else (128, [], d))
      else if take 13 cmd = ''git checkout '' then
        (case demo_blob (drop 13 cmd) ''a.py'' of
           None \<Rightarrow> (1, [], d)
         | Some x \<Rightarrow>
             (0, [], d\<lparr>files := (files d)(path_join ''/repo'' ''a.py'' \<mapsto> File x),
                       revision := drop 13 cmd\<rparr>))
      else if take 23 cmd = ''git diff --name-status '' then
        (if word1 (drop 23 cmd) = word2 (drop 23 cmd) then (0, [], d)
         else (0, ''M'' @ [CHR 0x09] @ ''a.py'' @ [CHR 0x0A], d))
      else if cmd = ''flake8 /repo | wc -l'' then pipeline demo_flake8 wc_l [] c d
      else if take 7 cmd = ''pydiff '' then
        (case (files d (path_join c (word1 (drop 7 cmd))), files d (path_join c (word2 (drop 7 cmd)))) of
           (Some (File x), Some (File y)) \<Rightarrow>
             (0, if demo_compiled x = demo_compiled y then [] else ''bytecode differs'', d)
         | _ \<Rightarrow> (2, [], d))
      else if cmd = ''exit 1'' then (1, [], d)
      else (127, [], d))"

fun py_str :: "pyval \<Rightarrow> string" where
  "py_str (PStr s) = s"
| "py_str (PInt i) = (if i < 0 then ''-'' @ show_nat (nat (- i)) else show_nat (nat i))"

datatype fstate = Plain | AfterPercent | InKey string | AfterKey string

fun demo_percent_scan :: "fstate \<Rightarrow> string \<Rightarrow> (string \<times> pyval) list \<Rightarrow> error + string" where
  "demo_percent_scan Plain [] data = Inr []"
| "demo_percent_scan AfterPercent [] data = Inl (ValueError ''incomplete format'')"
| "demo_percent_scan (InKey k) [] data = Inl (ValueError ''incomplete format key'')"
| "demo_percent_scan (AfterKey k) [] data = Inl (ValueError ''incomplete format'')"
| "demo_percent_scan Plain (c # cs) data =
     (if c = CHR ''%'' then demo_percent_scan AfterPercent cs data
      else map_sum id ((#) c) (demo_percent_scan Plain cs data))"
| "demo_percent_scan AfterPercent (c # cs) data =
     (if c = CHR ''%'' then map_sum id ((#) c) (demo_percent_scan Plain cs data)
      else if c = CHR ''('' then demo_percent_scan (InKey []) cs data
      else Inl TypeError)"
| "demo_percent_scan (InKey k) (c # cs) data =
     (if c = CHR '')'' then demo_percent_scan (AfterKey k) cs data
      else demo_percent_scan (InKey (k @ [c])) cs data)"
| "demo_percent_scan (AfterKey k) (c # cs) data =
     (if c = CHR ''s''
      then (case map_of data k of
              None \<Rightarrow> Inl (KeyError k)
            | Some v \<Rightarrow> map_sum id ((@) (py_str v)) (demo_percent_scan Plain cs data))
      else Inl (ValueError ''unsupported format character''))"

definition demo_percent :: "string \<Rightarrow> (string \<times> pyval) list \<Rightarrow> error + string" where
  \<comment> \<open>the part of \<open>command % data\<close> made of \<open>%%\<close> and \<open>%(key)s\<close>\<close>
  "demo_percent command data = demo_percent_scan Plain command data"

definition demo_env :: env where
  "demo_env = \<lparr>shell = demo_shell, percent = demo_percent\<rparr>"

definition demo_files :: "path \<rightharpoonup> node" where
  "demo_files = [''/tmp'' \<mapsto> Dir, ''/repo'' \<mapsto> Dir, ''/repo/a.py'' \<mapsto> File ''x=1'']"

definition demo_world :: world where
  "demo_world =
     \<lparr>cwd = ''/repo'', tmp_seq = 0, spawned = [], printed = [],
      disk = \<lparr>files = demo_files, revision = ''master''\<rparr>\<rparr>"







section \<open>Decomposing a run\<close>

lemma pair_snd_iff: "p = (a, snd p) \<longleftrightarrow> fst p = a"
  by (cases p) auto

lemma bind_InrD:
  "bind m f w = (Inr y, w') \<Longrightarrow> \<exists>x w1. m w = (Inr x, w1) \<and> f x w1 = (Inr y, w')"
  by (auto simp: bind_def split: prod.splits sum.splits)

lemma try_finally_InrD:
  "try_finally m h w = (Inr y, w') \<Longrightarrow> \<exists>w1 z. m w = (Inr y, w1) \<and> h w1 = (Inr z, w')"
  by (auto simp: try_finally_def split: prod.splits sum.splits)

lemma os_chdir_frame:
  "os_chdir p w = (r, w') \<Longrightarrow>
     printed w' = printed w \<and> spawned w' = spawned w \<and> disk w' = disk w \<and> tmp_seq w' = tmp_seq w"
  by (auto simp: os_chdir_def Let_def split: if_splits)

lemma os_chdir_cases:
  "os_chdir p w = (Inr (), w\<lparr>cwd := path_join (cwd w) p\<rparr>) \<or>
   os_chdir p w = (Inl (OSError (path_join (cwd w) p)), w)"
  by (simp add: os_chdir_def Let_def)

lemma execute_frame:
  "execute E c d w = (r, w') \<Longrightarrow> printed w' = printed w \<and> cwd w' = cwd w \<and> tmp_seq w' = tmp_seq w"
  by (auto simp: execute_def split: sum.splits prod.splits if_splits)

lemma execute_plain:
  "shell E c (cwd w) (disk w) = (status, out, d) \<Longrightarrow>
   execute E c [] w =
     (if status \<noteq> 0 then Inl (Exception (error_text c)) else Inr out,
      w\<lparr>spawned := spawned w @ [c], disk := d\<rparr>)"
  by (simp add: execute_def interpolate_def)

lemma execute_spawned:
  "execute E c [] w = (r, w') \<Longrightarrow> spawned w' = spawned w @ [c]"
  by (auto simp: execute_def interpolate_def split: prod.splits if_splits)

lemma chdir_InrD:
  "chdir p body w = (Inr y, w') \<Longrightarrow>
     \<exists>wa wb. os_chdir p w = (Inr (), wa) \<and> body wa = (Inr y, wb) \<and> os_chdir (cwd w) wb = (Inr (), w')"
  by (auto simp: chdir_def Let_def dest!: try_finally_InrD bind_InrD)

lemma chdir_entered:
  "os_chdir p w = (Inr (), wa) \<Longrightarrow> body wa = (r, wb) \<Longrightarrow>
   chdir p body w =
     (case os_chdir (cwd w) wb of (Inl e, w2) \<Rightarrow> (Inl e, w2) | (Inr u, w2) \<Rightarrow> (r, w2))"
  by (cases r) (auto simp: chdir_def Let_def try_finally_def bind_def split: prod.splits sum.splits)

lemma chdir_entered_frame:
  assumes "os_chdir p w = (Inr (), wa)" and "body wa = (r, wb)"
  shows "\<exists>r' w'. chdir p body w = (r', w') \<and> spawned w' = spawned wb \<and> disk w' = disk wb
           \<and> printed w' = printed wb \<and> tmp_seq w' = tmp_seq wb
           \<and> (r' = r \<or> r' = Inl (OSError (path_join (cwd wb) (cwd w))))"
proof -
  have "chdir p body w =
     (case os_chdir (cwd w) wb of (Inl e, w2) \<Rightarrow> (Inl e, w2) | (Inr u, w2) \<Rightarrow> (r, w2))"
    using assms by (rule chdir_entered)
  then show ?thesis
    using os_chdir_cases [of "cwd w" wb] by auto
qed

lemma git_branch_printed:
  "git_branch E repo w = (r, w') \<Longrightarrow> printed w' = printed w"
  unfolding git_branch_def chdir_def Let_def try_finally_def bind_def return_def
  by (auto split: prod.splits sum.splits dest!: os_chdir_frame execute_frame)

lemma git_branch_spawned:
  "git_branch E repo w = (Inr b, w') \<Longrightarrow> spawned w' = spawned w @ [''git rev-parse --abbrev-ref HEAD'']"
  unfolding git_branch_def
  by (auto dest!: chdir_InrD bind_InrD os_chdir_frame execute_spawned simp: return_def)

lemma count_in_printed:
  "count_in E repo c w = (Inr n, w') \<Longrightarrow> printed w' = printed w @ [Flake8Errors n c]"
  unfolding count_in_def git_checkout_def
  apply (drule chdir_InrD)
  apply (auto dest!: bind_InrD try_finally_InrD os_chdir_frame git_branch_printed execute_frame
     simp: flake8_count_def print_def return_def raise_def split: if_splits sum.splits)
  done

lemma git_checkout_in_scope:
  assumes "git_checkout E repo c body w = (Inr y, w')"
  shows "\<exists>v v'. in_scope E repo c w v \<and> body v = (Inr y, v')"
proof -
  from assms obtain wa wb backup wd where
      a: "os_chdir repo w = (Inr (), wa)"
      and q: "git_branch E repo wa = (Inr backup, wb)"
      and i: "(if backup \<noteq> c
            then try_finally
                 (bind (execute E (''git checkout '' @ c) []) (\<lambda>_. body))
                 (execute E (''git checkout '' @ backup) [])
            else body) wb = (Inr y, wd)"
    unfolding git_checkout_def by (auto dest!: chdir_InrD bind_InrD)
  show ?thesis
  proof (cases "backup = c")
    case True
    with a q i show ?thesis unfolding in_scope_def by auto
  next
    case False
    with i obtain o1 w1 wc where
        "execute E (''git checkout '' @ c) [] wb = (Inr o1, w1)" and "body w1 = (Inr y, wc)"
      by (auto dest!: try_finally_InrD bind_InrD)
    with False a q show ?thesis unfolding in_scope_def by auto
  qed
qed

lemma count_in_counted:
  "count_in E repo c w = (Inr n, w') \<Longrightarrow> counted E repo c w n"
  unfolding count_in_def counted_def
  by (drule git_checkout_in_scope) (auto dest!: bind_InrD simp: print_def return_def)

lemma final_phase_printed:
  "final_phase s e w = (r, w') \<Longrightarrow>
     r = Inr () \<and> printed w' = printed w @ [if e < s then OkLess else ErrorMoreOrEqual]"
  by (auto simp: final_phase_def Let_def print_def split: if_splits)

lemma strip_blank: "list_all is_space s \<Longrightarrow> strip s = []"
  by (auto simp: strip_def list_all_iff dest: set_dropWhileD)

lemma git_checkout_entered:
  assumes "os_chdir repository_dir w = (Inr (), wa)"
      and "git_branch E repository_dir wa = (Inr backup, wb)"
      and "(if backup \<noteq> commit
            then try_finally
                 (bind (execute E (''git checkout '' @ commit) []) (\<lambda>_. body))
                 (execute E (''git checkout '' @ backup) [])
            else body) wb = (r, wc)"
  shows "git_checkout E repository_dir commit body w =
     (case os_chdir (cwd w) wc of (Inl e, w2) \<Rightarrow> (Inl e, w2) | (Inr u, w2) \<Rightarrow> (r, w2))"
  unfolding git_checkout_def
  by (rule chdir_entered [OF assms(1)]) (use assms(2,3) in \<open>simp add: bind_def\<close>)

lemma path_join_absolute: "absolute p \<Longrightarrow> path_join c p = p"
  by (simp add: path_join_def absolute_def)

subsection \<open>A checkout scope that returns\<close>







subsection \<open>Decimal numbers\<close>

lemma show_nat_nonempty: "show_nat n \<noteq> []"
  by (subst show_nat.simps) simp

lemma is_digit_char_of: "d < 10 \<Longrightarrow> is_digit (char_of (48 + d :: nat))"
  by (simp add: is_digit_def)

lemma digit_value_char_of: "d < 10 \<Longrightarrow> digit_value (char_of (48 + d :: nat)) = d"
  by (simp add: digit_value_def)

lemma show_nat_digits: "list_all is_digit (show_nat n)"
proof (induction n rule: show_nat.induct)
  case (1 n)
  show ?case
  proof (cases "n < 10")
    case True
    then show ?thesis by (subst show_nat.simps) (simp add: is_digit_char_of)
  next
    case False
    with 1 show ?thesis by (subst show_nat.simps) (simp add: is_digit_char_of)
  qed
qed

lemma digits_value_snoc: "digits_value (ds @ [c]) = 10 * digits_value ds + digit_value c"
  by (simp add: digits_value_def)

lemma digits_value_show_nat: "digits_value (show_nat n) = n"
proof (induction n rule: show_nat.induct)
  case (1 n)
  show ?case
  proof (cases "n < 10")
    case True
    then show ?thesis
      by (subst show_nat.simps) (simp add: digits_value_def digit_value_char_of)
  next
    case False
    with 1 show ?thesis
      by (subst show_nat.simps) (simp add: digits_value_snoc digit_value_char_of)
  qed
qed

lemma digit_not_space: "is_digit c \<Longrightarrow> \<not> is_space c"
  by (auto simp: is_digit_def is_space_def)

lemma digit_not_sign: "is_digit c \<Longrightarrow> c \<noteq> CHR ''-'' \<and> c \<noteq> CHR ''+''"
  by (auto simp: is_digit_def)

lemma strip_digits: "ds \<noteq> [] \<Longrightarrow> list_all is_digit ds \<Longrightarrow> strip ds = ds"
proof -
  assume ne: "ds \<noteq> []" and dg: "list_all is_digit ds"
  then have h: "\<not> is_space (hd ds)" and l: "\<not> is_space (last ds)"
    by (auto simp: list_all_iff digit_not_space)
  from ne h have 1: "dropWhile is_space ds = ds"
    by (cases ds) auto
  from ne l have 2: "dropWhile is_space (rev ds) = rev ds"
    by (cases "rev ds") (auto simp: last_rev hd_rev)
  show ?thesis by (simp add: strip_def 1 2)
qed

lemma strip_digits_newline:
  assumes "ds \<noteq> []" and "list_all is_digit ds"
  shows "strip (ds @ [CHR 0x0A]) = ds"
proof -
  from assms have h: "\<not> is_space (hd ds)" and l: "\<not> is_space (last ds)"
    by (auto simp: list_all_iff digit_not_space)
  from assms(1) h have 1: "dropWhile is_space (ds @ [CHR 0x0A]) = ds @ [CHR 0x0A]"
    by (cases ds) auto
  from assms(1) l have 2: "dropWhile is_space (rev ds) = rev ds"
    by (cases "rev ds") (auto simp: last_rev hd_rev)
  have 3: "is_space (CHR 0x0A)" by (simp add: is_space_def)
  show ?thesis by (simp add: strip_def 1 2 3)
qed

lemma py_int_digits: "ds \<noteq> [] \<Longrightarrow> list_all is_digit ds \<Longrightarrow> py_int ds = Inr (int (digits_value ds))"
  by (cases ds) (auto simp: py_int_def strip_digits all_digits_def digit_not_sign)

lemma py_int_wc_output: "py_int (strip (show_nat n @ [CHR 0x0A])) = Inr (int n)"
  by (simp add: strip_digits_newline py_int_digits show_nat_nonempty show_nat_digits digits_value_show_nat)

subsection \<open>Temporary directories\<close>

lemma tmp_name_eq: "tmp_name n = ''/tmp/tmp'' @ show_nat n"
  by (simp add: tmp_name_def path_join_def tempdir_def)

lemma absolute_tmp_name: "absolute (tmp_name n)"
  by (simp add: tmp_name_eq absolute_def)

lemma mkdtemp_loop_Inr:
  "mkdtemp_loop k w = (Inr p, w1) \<Longrightarrow>
     \<exists>n. p = tmp_name n \<and> files (disk w) p = None
        \<and> disk w1 = (disk w)\<lparr>files := (files (disk w))(p \<mapsto> Dir)\<rparr>
        \<and> cwd w1 = cwd w \<and> spawned w1 = spawned w \<and> printed w1 = printed w"
proof (induction k arbitrary: w)
  case 0
  then show ?case by simp
next
  case (Suc k)
  show ?case
  proof (cases "files (disk w) (tmp_name (tmp_seq w))")
    case None
    with Suc.prems show ?thesis
      by (auto simp: Let_def fun_upd_def split: if_splits)
  next
    case (Some a)
    with Suc.prems have "mkdtemp_loop k (w\<lparr>tmp_seq := Suc (tmp_seq w)\<rparr>) = (Inr p, w1)"
      by (simp add: Let_def)
    from Suc.IH [OF this] show ?thesis by simp
  qed
qed

lemma mkdtemp_Inr:
  "mkdtemp w = (Inr p, w1) \<Longrightarrow>
     \<exists>n. p = tmp_name n \<and> files (disk w) p = None
        \<and> disk w1 = (disk w)\<lparr>files := (files (disk w))(p \<mapsto> Dir)\<rparr>
        \<and> cwd w1 = cwd w \<and> spawned w1 = spawned w \<and> printed w1 = printed w"
  unfolding mkdtemp_def by (rule mkdtemp_loop_Inr)

lemma mkdtemp_loop_first:
  "0 < k \<Longrightarrow> files (disk w) (tmp_name (tmp_seq w)) = None \<Longrightarrow> files (disk w) tempdir = Some Dir \<Longrightarrow>
   mkdtemp_loop k w =
     (Inr (tmp_name (tmp_seq w)),
      w\<lparr>tmp_seq := Suc (tmp_seq w),
        disk := (disk w)\<lparr>files := (files (disk w))(tmp_name (tmp_seq w) \<mapsto> Dir)\<rparr>\<rparr>)"
  by (cases k) (simp_all add: Let_def)

lemma rmtree_absolute:
  "absolute p \<Longrightarrow>
   rmtree p w =
     (if files (disk w) p = Some Dir
      then (Inr (), w\<lparr>disk := (disk w)\<lparr>files := (\<lambda>x. if x = p \<or> under p x then None else files (disk w) x)\<rparr>\<rparr>)
      else (Inl (OSError p), w))"
  by (simp add: rmtree_def path_join_absolute Let_def)

subsection \<open>The comparison in a temporary directory, when it returns\<close>



lemma mkdtemp_loop_private:
  "mkdtemp_loop k w = (r, w1) \<Longrightarrow> cwd w1 = cwd w \<and> spawned w1 = spawned w \<and> printed w1 = printed w"
proof (induction k arbitrary: w)
  case 0
  then show ?case by auto
next
  case (Suc k)
  show ?case
  proof (cases "files (disk w) (tmp_name (tmp_seq w))")
    case None
    with Suc.prems show ?thesis by (auto simp: Let_def split: if_splits)
  next
    case (Some a)
    with Suc.prems have "mkdtemp_loop k (w\<lparr>tmp_seq := Suc (tmp_seq w)\<rparr>) = (r, w1)"
      by (simp add: Let_def)
    from Suc.IH [OF this] show ?thesis by simp
  qed
qed


subsection \<open>Paths in the temporary directory\<close>


















subsection \<open>The first steps in the small environment\<close>

lemma demo_enter: "os_chdir ''/repo'' demo_world = (Inr (), demo_world)"
  by (simp add: os_chdir_def demo_world_def demo_files_def path_join_def Let_def)

lemma demo_branch:
  "git_branch demo_env ''/repo'' demo_world =
     (Inr ''master'', demo_world\<lparr>spawned := [''git rev-parse --abbrev-ref HEAD'']\<rparr>)"
  by (simp add: git_branch_def chdir_def try_finally_def bind_def os_chdir_def execute_def
      interpolate_def demo_env_def demo_shell_def return_def strip_def is_space_def path_join_def
      demo_world_def demo_files_def Let_def)

lemma demo_tmp_name: "tmp_name 0 = ''/tmp/tmp0''"
  by code_simp

lemma demo_mkdtemp:
  "mkdtemp demo_world =
     (Inr ''/tmp/tmp0'',
      demo_world\<lparr>tmp_seq := Suc 0,
                 disk := (disk demo_world)\<lparr>files := (files (disk demo_world))(''/tmp/tmp0'' \<mapsto> Dir)\<rparr>\<rparr>)"
  unfolding mkdtemp_def
  by (subst mkdtemp_loop_first)
     (simp_all add: TMP_MAX_def demo_world_def demo_files_def demo_tmp_name tempdir_def)





lemma demo_outside: "\<not> inside ''/repo'' (tmp_name n)"
  by (simp add: tmp_name_eq inside_def under_def)








section \<open>The claims\<close>

text \<open>
  C2. A run of \<open>git_review8\<close> that returns ends with its two counting scopes and the
  verdict: \<open>s\<close> is what \<open>flake8_count\<close> returned in the scope for the start revision and
  \<open>e\<close> what it returned in the scope for the end revision, each is printed beside its
  revision, and the last line printed is the OK line if and only if \<open>e\<close> is strictly
  lower than \<open>s\<close>, the error line otherwise, equal counts included.
\<close>

theorem git_review8_verdict:
  assumes "git_review8 E repository_dir start_commit end_commit w = (Inr u, w')"
  shows "\<exists>w5 w6 w7 s e.
           counted E repository_dir start_commit w5 s
         \<and> count_in E repository_dir start_commit w5 = (Inr s, w6)
         \<and> printed w6 = printed w5 @ [Flake8Errors s start_commit]
         \<and> counted E repository_dir end_commit w6 e
         \<and> count_in E repository_dir end_commit w6 = (Inr e, w7)
         \<and> printed w7 = printed w6 @ [Flake8Errors e end_commit]
         \<and> w' = w7\<lparr>printed := printed w7 @ [if e < s then OkLess else ErrorMoreOrEqual]\<rparr>"
proof -
  from assms obtain w5 w6 w7 s e
    where s: "count_in E repository_dir start_commit w5 = (Inr s, w6)"
      and e: "count_in E repository_dir end_commit w6 = (Inr e, w7)"
      and f: "final_phase s e w7 = (Inr u, w')"
    unfolding git_review8_def by (blast dest!: bind_InrD)
  from f have "w' = w7\<lparr>printed := printed w7 @ [if e < s then OkLess else ErrorMoreOrEqual]\<rparr>"
    by (auto simp: final_phase_def Let_def print_def split: if_splits)
  with s e count_in_counted [OF s] count_in_counted [OF e]
       count_in_printed [OF s] count_in_printed [OF e]
  show ?thesis by blast
qed

theorem git_review8_verdict_witness:
  "fst (git_review8 demo_env ''/repo'' ''master'' ''pep8'' demo_world) = Inr ()
   \<and> printed (snd (git_review8 demo_env ''/repo'' ''master'' ''pep8'' demo_world)) =
       [OkNoBytecodeDiff ''a.py'', Flake8Errors 3 ''master'', Flake8Errors 1 ''pep8'', OkLess]
   \<and> (\<exists>w5 w6. counted demo_env ''/repo'' ''master'' w5 3 \<and> counted demo_env ''/repo'' ''pep8'' w6 1)"
proof -
  let ?run = "git_review8 demo_env ''/repo'' ''master'' ''pep8'' demo_world"
  have run: "fst ?run = Inr ()"
    by code_simp
  have out: "printed (snd ?run) =
       [OkNoBytecodeDiff ''a.py'', Flake8Errors 3 ''master'', Flake8Errors 1 ''pep8'', OkLess]"
    by code_simp
  from run have "?run = (Inr (), snd ?run)"
    by (simp add: pair_snd_iff)
  from git_review8_verdict [OF this] obtain w5 w6 w7 s e where
      s: "counted demo_env ''/repo'' ''master'' w5 s" and e: "counted demo_env ''/repo'' ''pep8'' w6 e"
      and p6: "printed w6 = printed w5 @ [Flake8Errors s ''master'']"
      and p7: "printed w7 = printed w6 @ [Flake8Errors e ''pep8'']"
      and w': "snd ?run = w7\<lparr>printed := printed w7 @ [if e < s then OkLess else ErrorMoreOrEqual]\<rparr>"
    by blast
  have "printed (snd ?run) = printed w5 @ [Flake8Errors s ''master'', Flake8Errors e ''pep8'',
          if e < s then OkLess else ErrorMoreOrEqual]"
    by (subst w') (simp add: p6 p7)
  then have "rev [OkNoBytecodeDiff ''a.py'', Flake8Errors 3 ''master'', Flake8Errors 1 ''pep8'', OkLess]
      = rev (printed w5 @ [Flake8Errors s ''master'', Flake8Errors e ''pep8'',
          if e < s then OkLess else ErrorMoreOrEqual])"
    by (simp only: out)
  then have "s = 3" and "e = 1" by simp_all
  with s e run out show ?thesis by blast
qed

text \<open>
  C8, as amended. Where the interpolation of the template succeeds (no substitutions
  leave the template as it is), \<open>execute\<close> spawns the interpolated command. It raises its
  generic error if and only if the child exits with a non-zero status, and the message
  of that error carries the command as it was run, after interpolation; on exit status
  zero it returns the captured output of the child.
\<close>

theorem execute_raises_iff_nonzero_exit:
  assumes "interpolate E command data = Inr cmd"
      and "shell E cmd (cwd w) (disk w) = (status, out, d)"
  shows "(fst (execute E command data w) = Inl (Exception (error_text cmd)) \<longleftrightarrow> status \<noteq> 0)
       \<and> (fst (execute E command data w) = Inr out \<longleftrightarrow> status = 0)
       \<and> sublist cmd (error_text cmd)
       \<and> spawned (snd (execute E command data w)) = spawned w @ [cmd]
       \<and> (data = [] \<longrightarrow> cmd = command)"
proof -
  have "sublist cmd (error_text cmd)"
    unfolding error_text_def sublist_def by (metis append.assoc)
  with assms show ?thesis
    by (auto simp: execute_def interpolate_def split: if_splits)
qed

theorem execute_raises_iff_nonzero_exit_witness:
  "fst (execute demo_env ''exit %(code)s'' [(''code'', PStr ''1'')] demo_world)
     = Inl (Exception (error_text ''exit 1''))"
proof -
  have i: "interpolate demo_env ''exit %(code)s'' [(''code'', PStr ''1'')] = Inr ''exit 1''"
    by code_simp
  have s: "shell demo_env ''exit 1'' (cwd demo_world) (disk demo_world) = (1, [], disk demo_world)"
    by (simp add: demo_env_def demo_shell_def)
  from execute_raises_iff_nonzero_exit [OF i s] show ?thesis by simp
qed

text \<open>
  The claim as it was stated fails: the error of a command built from a template
  carries the interpolated command, in which the template does not occur.
\<close>

theorem execute_error_omits_template:
  "fst (execute demo_env ''exit %(code)s'' [(''code'', PStr ''1'')] demo_world)
     = Inl (Exception (error_text ''exit 1''))
   \<and> \<not> sublist ''exit %(code)s'' (error_text ''exit 1'')"
  by code_simp

text \<open>
  C1. The claim asks that an empty or blank output of the diff yields no filename and
  no crash. The code does otherwise: \<open>''.split('\n')\<close> is \<open>['']\<close>, and \<open>line[0]\<close> on
  that one empty line raises \<open>IndexError\<close>. Whatever the consumer and the status asked
  for, the enumeration raises as soon as it is run; the exception is \<open>IndexError\<close>
  whenever the working directory can be restored.
\<close>

theorem git_status_files_blank_output_raises:
  assumes "os_chdir repository_dir w = (Inr (), wa)"
      and "shell E (''git diff --name-status '' @ start_commit @ '' '' @ end_commit) (cwd wa) (disk wa)
             = (0, output, d)"
      and "list_all is_space output"
  shows "\<exists>e. fst (git_status_files E repository_dir start_commit end_commit status consume acc w) = Inl e
           \<and> (files d (path_join (cwd wa) (cwd w)) = Some Dir \<longrightarrow> e = IndexError)"
proof -
  let ?cmd = "''git diff --name-status '' @ start_commit @ '' '' @ end_commit"
  let ?body = "bind (execute E ?cmd [])
          (\<lambda>output. status_loop (split_nl (strip output)) status consume acc)"
  let ?wb = "wa\<lparr>spawned := spawned wa @ [?cmd], disk := d\<rparr>"
  have body: "?body wa = (Inl IndexError, ?wb)"
    using assms(2,3) by (simp add: bind_def execute_plain strip_blank raise_def)
  have "chdir_gen repository_dir ?body w =
     (case os_chdir (cwd w) ?wb of (Inl e, w2) \<Rightarrow> (Inl e, w2) | (Inr u, w2) \<Rightarrow> (Inl IndexError, w2))"
    using assms(1) body by (simp add: chdir_gen_def bind_def Let_def)
  then show ?thesis
    unfolding git_status_files_def by (simp add: os_chdir_def Let_def)
qed

text \<open>The same revision twice: the diff is empty, and listing the deleted files raises.\<close>

theorem git_status_files_blank_output_raises_witness:
  "fst (git_deleted_files demo_env ''/repo'' ''master'' ''master'' demo_world) = Inl IndexError"
proof -
  have b: "shell demo_env (''git diff --name-status '' @ ''master'' @ '' '' @ ''master'')
             (cwd demo_world) (disk demo_world) = (0, [], disk demo_world)"
    by (simp add: demo_env_def demo_shell_def word1_def word2_def)
  have c: "list_all is_space []" by simp
  have d: "files (disk demo_world) (path_join (cwd demo_world) (cwd demo_world)) = Some Dir"
    by (simp add: demo_world_def demo_files_def path_join_def)
  from git_status_files_blank_output_raises [OF demo_enter b c, of "''D''" collect "[]"] d
  show ?thesis unfolding git_deleted_files_def by auto
qed

text \<open>
  C9. When the branch query answers the target revision, the scope is the query, the
  body and the return to the former working directory: the query is the only command
  spawned before the body, none is spawned after it, the disk is as the body left it,
  and the outcome of the body, value or exception, is the outcome of the scope.
\<close>

theorem git_checkout_pass_through:
  assumes "os_chdir repository_dir w = (Inr (), wa)"
      and "git_branch E repository_dir wa = (Inr commit, wb)"
      and "body wb = (r, wc)"
  shows "spawned wb = spawned w @ [''git rev-parse --abbrev-ref HEAD'']
       \<and> (\<exists>r' w'. git_checkout E repository_dir commit body w = (r', w')
             \<and> spawned w' = spawned wc \<and> disk w' = disk wc
             \<and> (files (disk wc) (path_join (cwd wc) (cwd w)) = Some Dir \<longrightarrow> r' = r))"
proof -
  have "git_checkout E repository_dir commit body w =
     (case os_chdir (cwd w) wc of (Inl e, w2) \<Rightarrow> (Inl e, w2) | (Inr u, w2) \<Rightarrow> (r, w2))"
    using assms by (intro git_checkout_entered [where backup = commit]) simp_all
  moreover have "spawned wb = spawned w @ [''git rev-parse --abbrev-ref HEAD'']"
    using git_branch_spawned [OF assms(2)] os_chdir_frame [OF assms(1)] by simp
  ultimately show ?thesis
    by (simp add: os_chdir_def Let_def)
qed

theorem git_checkout_pass_through_witness:
  "fst (git_checkout demo_env ''/repo'' ''master'' (raise (Raised ''boom'') :: unit prog) demo_world)
       = Inl (Raised ''boom'')
   \<and> spawned (snd (git_checkout demo_env ''/repo'' ''master'' (raise (Raised ''boom'') :: unit prog) demo_world))
       = [''git rev-parse --abbrev-ref HEAD'']"
proof -
  let ?wb = "demo_world\<lparr>spawned := [''git rev-parse --abbrev-ref HEAD'']\<rparr>"
  have body: "(raise (Raised ''boom'') :: unit prog) ?wb = (Inl (Raised ''boom''), ?wb)"
    by (simp add: raise_def)
  have dir: "files (disk ?wb) (path_join (cwd ?wb) (cwd demo_world)) = Some Dir"
    by (simp add: demo_world_def demo_files_def path_join_def)
  from git_checkout_pass_through
         [where body = "raise (Raised ''boom'') :: unit prog", OF demo_enter demo_branch body] dir
  show ?thesis by auto
qed




text \<open>
  C4, as amended. The entry checkout lies inside the \<open>try\<close>. When it fails, the body is
  not run (nothing is printed, no temporary name is drawn, no other command is spawned),
  the checkout of the recorded revision is spawned all the same, and an error leaves the
  scope: that of the entry checkout when the restoring checkout succeeds, that of the
  restoring checkout when it fails too.
\<close>

theorem git_checkout_failed_entry_still_restores:
  assumes "os_chdir repository_dir w = (Inr (), wa)"
      and "git_branch E repository_dir wa = (Inr backup, wb)"
      and "backup \<noteq> commit"
      and "shell E (''git checkout '' @ commit) (cwd wb) (disk wb) = (status, out, d1)"
      and "status \<noteq> 0"
      and "shell E (''git checkout '' @ backup) (cwd wb) d1 = (status', out', d2)"
  shows "\<exists>e' w'. git_checkout E repository_dir commit body w = (Inl e', w')
           \<and> spawned w' = spawned wb @ [''git checkout '' @ commit, ''git checkout '' @ backup]
           \<and> disk w' = d2 \<and> printed w' = printed wb \<and> tmp_seq w' = tmp_seq wb
           \<and> (files d2 (path_join (cwd wb) (cwd w)) = Some Dir \<longrightarrow>
                e' = Exception (error_text (''git checkout '' @ (if status' = 0 then commit else backup))))"
proof -
  let ?w1 = "wb\<lparr>spawned := spawned wb @ [''git checkout '' @ commit], disk := d1\<rparr>"
  let ?w2 = "?w1\<lparr>spawned := spawned ?w1 @ [''git checkout '' @ backup], disk := d2\<rparr>"
  let ?r = "Inl (Exception (error_text (''git checkout '' @ (if status' = 0 then commit else backup))))"
  have 1: "execute E (''git checkout '' @ commit) [] wb =
             (Inl (Exception (error_text (''git checkout '' @ commit))), ?w1)"
    using execute_plain [OF assms(4)] assms(5) by simp
  have 2: "execute E (''git checkout '' @ backup) [] ?w1 =
             (if status' \<noteq> 0 then Inl (Exception (error_text (''git checkout '' @ backup))) else Inr out', ?w2)"
    by (rule execute_plain) (use assms(6) in simp)
  have "try_finally (bind (execute E (''git checkout '' @ commit) []) (\<lambda>_. body))
                 (execute E (''git checkout '' @ backup) []) wb = (?r, ?w2)"
    using 1 2 by (simp add: try_finally_def bind_def)
  with assms(3) have "git_checkout E repository_dir commit body w =
     (case os_chdir (cwd w) ?w2 of (Inl e, w2) \<Rightarrow> (Inl e, w2) | (Inr u, w2) \<Rightarrow> (?r, w2))"
    by (intro git_checkout_entered [OF assms(1,2)]) simp
  then show ?thesis
    by (simp add: os_chdir_def Let_def)
qed

theorem git_checkout_failed_entry_still_restores_witness:
  "fst (git_checkout demo_env ''/repo'' ''nope'' (print OkLess) demo_world)
       = Inl (Exception (error_text ''git checkout nope''))
   \<and> spawned (snd (git_checkout demo_env ''/repo'' ''nope'' (print OkLess) demo_world))
       = [''git rev-parse --abbrev-ref HEAD'', ''git checkout nope'', ''git checkout master'']
   \<and> printed (snd (git_checkout demo_env ''/repo'' ''nope'' (print OkLess) demo_world)) = []"
proof -
  let ?wb = "demo_world\<lparr>spawned := [''git rev-parse --abbrev-ref HEAD'']\<rparr>"
  let ?d2 = "(disk demo_world)\<lparr>files := (files (disk demo_world))(''/repo/a.py'' \<mapsto> File ''x=1''),
                revision := ''master''\<rparr>"
  have ne: "''master'' \<noteq> ''nope''" by simp
  have entry: "shell demo_env (''git checkout '' @ ''nope'') (cwd ?wb) (disk ?wb) = (1, [], disk demo_world)"
    by (simp add: demo_env_def demo_shell_def demo_blob_def)
  have st: "(1::int) \<noteq> 0" by simp
  have restore: "shell demo_env (''git checkout '' @ ''master'') (cwd ?wb) (disk demo_world) = (0, [], ?d2)"
    by (simp add: demo_env_def demo_shell_def demo_blob_def path_join_def)
  have dir: "files ?d2 (path_join (cwd ?wb) (cwd demo_world)) = Some Dir"
    by (simp add: demo_world_def demo_files_def path_join_def)
  from git_checkout_failed_entry_still_restores
         [where body = "print OkLess", OF demo_enter demo_branch ne entry st restore] dir
  show ?thesis by (auto simp: demo_world_def)
qed

text \<open>
  The claim as it was stated fails: the checkout of an unknown revision fails on entry,
  and the restoring checkout of \<open>master\<close> is spawned after it.
\<close>

theorem git_checkout_failed_entry_restore_issued:
  "fst (git_checkout demo_env ''/repo'' ''nope'' (return ()) demo_world)
       = Inl (Exception (error_text ''git checkout nope''))
   \<and> spawned (snd (git_checkout demo_env ''/repo'' ''nope'' (return ()) demo_world))
       = [''git rev-parse --abbrev-ref HEAD'', ''git checkout nope'', ''git checkout master'']"
  by code_simp

text \<open>
  C5. Where the shell runs \<open>flake8 PATH | wc -l\<close> as that pipeline, the result of
  \<open>flake8_count\<close> is the number of lines the checker wrote, whatever the exit status of
  the checker: no error is raised for a checker that fails, and a checker that fails
  without output gives 0.
\<close>

theorem flake8_count_is_line_count:
  assumes "shell E (''flake8 '' @ path @ '' | wc -l'') (cwd w) (disk w)
             = pipeline checker wc_l [] (cwd w) (disk w)"
      and "checker [] (cwd w) (disk w) = (status, report, d)"
  shows "flake8_count E path w =
           (Inr (int (count_list report (CHR 0x0A))),
            w\<lparr>spawned := spawned w @ [''flake8 '' @ path @ '' | wc -l''], disk := d\<rparr>)"
proof -
  have "shell E (''flake8 '' @ path @ '' | wc -l'') (cwd w) (disk w)
          = (0, show_nat (count_list report (CHR 0x0A)) @ [CHR 0x0A], d)"
    using assms by (simp add: pipeline_def wc_l_def)
  from execute_plain [OF this] show ?thesis
    by (simp add: flake8_count_def bind_def py_int_wc_output return_def)
qed

text \<open>A checker that exits with status 1 and writes nothing: the count is 0.\<close>

theorem flake8_count_is_line_count_witness:
  "fst (flake8_count \<lparr>shell = (\<lambda>cmd. pipeline (\<lambda>inp c d. (1, [], d)) wc_l []), percent = demo_percent\<rparr>
          ''/repo'' demo_world) = Inr 0"
proof -
  let ?E = "\<lparr>shell = (\<lambda>cmd. pipeline (\<lambda>inp c d. (1, [], d)) wc_l []), percent = demo_percent\<rparr>"
  have a: "shell ?E (''flake8 '' @ ''/repo'' @ '' | wc -l'') (cwd demo_world) (disk demo_world)
             = pipeline (\<lambda>inp c d. (1, [], d)) wc_l [] (cwd demo_world) (disk demo_world)"
    by simp
  have b: "(\<lambda>inp c d. (1::int, [], d)) [] (cwd demo_world) (disk demo_world) = (1, [], disk demo_world)"
    by simp
  from flake8_count_is_line_count [where checker = "\<lambda>inp c d. (1, [], d)", OF a b]
  show ?thesis by simp
qed

text \<open>
  C7. In a file system where nothing lies below a path that is no directory, a
  \<open>temporary_directory\<close> scope leaves neither the directory it created nor anything
  below it, whether its body returned or raised. An exception of the body leaves the
  scope as an exception, and as itself whenever the directory was still there to remove.
\<close>

theorem temporary_directory_removed:
  assumes "mkdtemp w = (Inr path, w1)"
      and "body path w1 = (r, w2)"
      and "files (disk w2) path \<noteq> Some Dir \<longrightarrow> (\<forall>q. under path q \<longrightarrow> files (disk w2) q = None)"
  shows "files (disk w1) path = Some Dir
       \<and> (\<exists>r' w'. temporary_directory body w = (r', w')
            \<and> files (disk w') path \<noteq> Some Dir
            \<and> (\<forall>q. under path q \<longrightarrow> files (disk w') q = None)
            \<and> (files (disk w2) path = Some Dir \<longrightarrow> r' = r \<and> files (disk w') path = None)
            \<and> (\<forall>e. r = Inl e \<longrightarrow> (\<exists>e'. r' = Inl e')))"
proof -
  from mkdtemp_Inr [OF assms(1)] obtain n where p: "path = tmp_name n"
    and d1: "disk w1 = (disk w)\<lparr>files := (files (disk w))(path \<mapsto> Dir)\<rparr>"
    by blast
  have abs: "absolute path" by (simp add: p absolute_tmp_name)
  have "temporary_directory body w =
          (case rmtree path w2 of (Inl e, w3) \<Rightarrow> (Inl e, w3) | (Inr u, w3) \<Rightarrow> (r, w3))"
    using assms(1,2) by (simp add: temporary_directory_def bind_def try_finally_def)
  with assms(3) d1 show ?thesis
    by (cases r) (auto simp: rmtree_absolute [OF abs])
qed

text \<open>A body that copies a file into the directory and then raises.\<close>

theorem temporary_directory_removed_witness:
  "fst (temporary_directory (\<lambda>p. bind (copy2 ''/repo/a.py'' p) (\<lambda>u. raise (Raised ''boom'') :: unit prog))
          demo_world) = Inl (Raised ''boom'')
   \<and> files (disk (snd (temporary_directory
          (\<lambda>p. bind (copy2 ''/repo/a.py'' p) (\<lambda>u. raise (Raised ''boom'') :: unit prog)) demo_world)))
        ''/tmp/tmp0'' = None
   \<and> files (disk (snd (temporary_directory
          (\<lambda>p. bind (copy2 ''/repo/a.py'' p) (\<lambda>u. raise (Raised ''boom'') :: unit prog)) demo_world)))
        ''/tmp/tmp0/a.py'' = None"
proof -
  let ?body = "\<lambda>p. bind (copy2 ''/repo/a.py'' p) (\<lambda>u. raise (Raised ''boom'') :: unit prog)"
  let ?f1 = "(files (disk demo_world))(''/tmp/tmp0'' \<mapsto> Dir)"
  let ?w1 = "demo_world\<lparr>tmp_seq := Suc 0, disk := (disk demo_world)\<lparr>files := ?f1\<rparr>\<rparr>"
  let ?w2 = "?w1\<lparr>disk := (disk ?w1)\<lparr>files := ?f1(''/tmp/tmp0/a.py'' \<mapsto> File ''x=1'')\<rparr>\<rparr>"
  have b: "?body ''/tmp/tmp0'' ?w1 = (Inl (Raised ''boom''), ?w2)"
    by (simp add: bind_def copy2_def raise_def demo_world_def demo_files_def path_join_def
        basename_def dirname_def Let_def)
  have c: "files (disk ?w2) ''/tmp/tmp0'' \<noteq> Some Dir \<longrightarrow>
             (\<forall>q. under ''/tmp/tmp0'' q \<longrightarrow> files (disk ?w2) q = None)"
    by simp
  have u: "under ''/tmp/tmp0'' ''/tmp/tmp0/a.py''"
    by (simp add: under_def)
  from temporary_directory_removed [where body = ?body, OF demo_mkdtemp b c] u
  show ?thesis by auto
qed







end
